theory Spec2Isabelle
  imports Main "HOL-Library.Sublist"
begin

section \<open>The publisher-subscriber demo of src/pubsub.go\<close>

text \<open>
  The program is a publisher (\<open>runServer\<close>) and a subscriber (\<open>runClient\<close>) built on
  three small helpers (\<open>subscribe\<close>, \<open>publish\<close>, \<open>receive\<close>) that call a socket of the
  mangos library. The socket is a Go interface value: the program only calls its methods
  and looks at the errors they return. The embedding therefore takes the library as a
  record of operations over an arbitrary socket state \<open>'s\<close>, so that a theorem about the
  program holds for every behaviour of the socket, and threads the socket state and the
  trace of observable effects through the program explicitly.
\<close>

subsection \<open>Values\<close>

text \<open>\<open>time.Duration\<close> counts nanoseconds; the program uses one and ten seconds only.\<close>

type_synonym duration = int

definition Second :: duration where
  "Second = 1000000000"

text \<open>
  A Go \<open>error\<close>: the program compares it with \<open>nil\<close> (here \<open>None\<close>) and prints
  \<open>err.Error()\<close>, nothing else.
\<close>

datatype error = GoError (Error: string)

text \<open>The two socket options the program sets, and the Go values it passes for them.\<close>

datatype opt_name = OptionSubscribe | OptionRecvDeadline

datatype opt_value = BytesVal string | DurationVal duration

datatype transport = IPC | TCP

subsection \<open>The socket interface\<close>

text \<open>
  \<open>pub.NewSocket\<close>, \<open>sub.NewSocket\<close> and the methods of \<open>mangos.Socket\<close> that the program
  calls. A method returns its Go results together with the new socket state. \<open>Recv\<close> is
  the one call that may wait: \<open>None\<close> stands for a call that never returns. On an error
  \<open>Recv\<close> returns a nil message, which \<open>string(message)\<close> turns into the empty string.
\<close>

record 's mangos =
  pub_NewSocket :: "error + 's"
  sub_NewSocket :: "error + 's"
  AddTransport :: "transport \<Rightarrow> 's \<Rightarrow> 's"
  Listen :: "string \<Rightarrow> 's \<Rightarrow> error option \<times> 's"
  Dial :: "string \<Rightarrow> 's \<Rightarrow> error option \<times> 's"
  SetOption :: "opt_name \<Rightarrow> opt_value \<Rightarrow> 's \<Rightarrow> error option \<times> 's"
  Send :: "string \<Rightarrow> 's \<Rightarrow> error option \<times> 's"
  Recv :: "'s \<Rightarrow> ((string \<times> error option) \<times> 's) option"

subsection \<open>Observable effects\<close>

text \<open>
  The trace lists, in program order, what the program does to the outside once it owns a
  socket: \<open>time.Sleep\<close>, \<open>fmt.Printf\<close>, and each method call that \<open>subscribe\<close>, \<open>publish\<close>
  and \<open>receive\<close> make on the socket, with the arguments passed and the results returned.
\<close>

datatype event =
    Sleep duration
  | Printf string
  | SetOptionCall opt_name opt_value "error option"
  | SendCall string "error option"
  | RecvCall string "error option"

type_synonym 's world = "'s \<times> event list"

definition sleep :: "duration \<Rightarrow> 's world \<Rightarrow> 's world" where
  "sleep d w = (fst w, snd w @ [Sleep d])"

definition printf :: "string \<Rightarrow> 's world \<Rightarrow> 's world" where
  "printf line w = (fst w, snd w @ [Printf line])"

definition callSetOption ::
  "'s mangos \<Rightarrow> opt_name \<Rightarrow> opt_value \<Rightarrow> 's world \<Rightarrow> error option \<times> 's world" where
  "callSetOption lib name val w =
     (let (err, s) = SetOption lib name val (fst w)
      in (err, (s, snd w @ [SetOptionCall name val err])))"

definition callSend :: "'s mangos \<Rightarrow> string \<Rightarrow> 's world \<Rightarrow> error option \<times> 's world" where
  "callSend lib bytes w =
     (let (err, s) = Send lib bytes (fst w)
      in (err, (s, snd w @ [SendCall bytes err])))"

definition callRecv :: "'s mangos \<Rightarrow> 's world \<Rightarrow> ((string \<times> error option) \<times> 's world) option" where
  "callRecv lib w =
     (case Recv lib (fst w) of
        None \<Rightarrow> None
      | Some ((message, err), s) \<Rightarrow> Some ((message, err), (s, snd w @ [RecvCall message err])))"

text \<open>
  \<open>log.Fatalf\<close> writes its message and ends the process: a run either returns or is
  \<open>Fatal\<close> with the message written.
\<close>

datatype outcome = Finished | Fatal string

subsection \<open>The program\<close>

text \<open>\<open>newPublisherSocket\<close> (lines 112-128) and \<open>newSubscriberSocket\<close> (lines 132-144).\<close>

definition newPublisherSocket :: "'s mangos \<Rightarrow> string \<Rightarrow> error + 's" where
  "newPublisherSocket lib url =
     (case pub_NewSocket lib of
        Inl err \<Rightarrow> Inl err
      | Inr socket \<Rightarrow>
          (case Listen lib url (AddTransport lib TCP (AddTransport lib IPC socket)) of
             (Some err, s) \<Rightarrow> Inl err
           | (None, s) \<Rightarrow> Inr s))"

definition newSubscriberSocket :: "'s mangos \<Rightarrow> string \<Rightarrow> error + 's" where
  "newSubscriberSocket lib url =
     (case sub_NewSocket lib of
        Inl err \<Rightarrow> Inl err
      | Inr socket \<Rightarrow>
          (case Dial lib url (AddTransport lib TCP (AddTransport lib IPC socket)) of
             (Some err, s) \<Rightarrow> Inl err
           | (None, s) \<Rightarrow> Inr s))"

text \<open>
  \<open>subscribe\<close> (lines 149-156): set the subscription option; only when that returned nil,
  set the receive deadline of ten seconds; return the last error.
\<close>

definition subscribe :: "'s mangos \<Rightarrow> string \<Rightarrow> 's world \<Rightarrow> error option \<times> 's world" where
  "subscribe lib topic w =
     (case callSetOption lib OptionSubscribe (BytesVal topic) w of
        (None, w1) \<Rightarrow> callSetOption lib OptionRecvDeadline (DurationVal (10 * Second)) w1
      | (Some err, w1) \<Rightarrow> (Some err, w1))"

text \<open>\<open>publish\<close> (lines 162-165): send \<open>fmt.Sprintf("%s|%s", topic, message)\<close>.\<close>

definition publish :: "'s mangos \<Rightarrow> string \<Rightarrow> string \<Rightarrow> 's world \<Rightarrow> error option \<times> 's world" where
  "publish lib topic message w = callSend lib (topic @ ''|'' @ message) w"

text \<open>\<open>receive\<close> (lines 170-173): \<open>Recv\<close>, the message converted to a string.\<close>

definition receive :: "'s mangos \<Rightarrow> 's world \<Rightarrow> ((string \<times> error option) \<times> 's world) option" where
  "receive lib w = callRecv lib w"

text \<open>
  \<open>runServer\<close> (lines 177-195). The inner loop ranges over the topics; the outer loop
  \<open>for i := 0; i < 5; i++\<close> does not use \<open>i\<close> and is written with the number of rounds
  still to run, which \<open>runServer\<close> starts at 5.
\<close>

fun runServer_topics :: "'s mangos \<Rightarrow> string list \<Rightarrow> 's world \<Rightarrow> outcome \<times> 's world" where
  "runServer_topics lib [] w = (Finished, w)"
| "runServer_topics lib (topic # rest) w =
     (case publish lib topic (''Message for '' @ topic)
             (printf (''Publishing a message for topic '' @ topic @ ''\<newline>'')
                (sleep (1 * Second) w)) of
        (Some err, w1) \<Rightarrow>
          (Fatal (''Cannot publish message for topic '' @ topic @ '': '' @ Error err @ ''\<newline>''), w1)
      | (None, w1) \<Rightarrow> runServer_topics lib rest w1)"

fun runServer_rounds :: "'s mangos \<Rightarrow> nat \<Rightarrow> string list \<Rightarrow> 's world \<Rightarrow> outcome \<times> 's world" where
  "runServer_rounds lib 0 topics w = (Finished, w)"
| "runServer_rounds lib (Suc k) topics w =
     (case runServer_topics lib topics w of
        (Fatal line, w1) \<Rightarrow> (Fatal line, w1)
      | (Finished, w1) \<Rightarrow> runServer_rounds lib k topics w1)"

definition runServer :: "'s mangos \<Rightarrow> string \<Rightarrow> string list \<Rightarrow> outcome \<times> event list" where
  "runServer lib url topics =
     (case newPublisherSocket lib url of
        Inl err \<Rightarrow> (Fatal (''Cannot listen on '' @ url @ '': '' @ Error err @ ''\<newline>''), [])
      | Inr socket \<Rightarrow>
          (case runServer_rounds lib 5 topics (socket, []) of (out, w) \<Rightarrow> (out, snd w)))"

text \<open>
  \<open>runClient\<close> (lines 198-220): the subscription loop over the topics, then the receive
  loop \<open>for i := 0; i < 5*len(topics); i++\<close>, again written with the iterations still to
  run. (\<open>5*len(topics)\<close> cannot overflow a Go \<open>int\<close>: a slice of strings is at most
  \<open>2^63 / 16\<close> long.) A \<open>Recv\<close> that never returns makes the run \<open>None\<close>.
\<close>

fun runClient_subscribe :: "'s mangos \<Rightarrow> string list \<Rightarrow> 's world \<Rightarrow> outcome \<times> 's world" where
  "runClient_subscribe lib [] w = (Finished, w)"
| "runClient_subscribe lib (topic # rest) w =
     (case subscribe lib topic w of
        (Some err, w1) \<Rightarrow>
          (Fatal (''Cannot subscribe to topic '' @ topic @ '': '' @ Error err @ ''\<newline>''), w1)
      | (None, w1) \<Rightarrow> runClient_subscribe lib rest w1)"

fun runClient_receive ::
  "'s mangos \<Rightarrow> string \<Rightarrow> nat \<Rightarrow> 's world \<Rightarrow> (outcome \<times> 's world) option" where
  "runClient_receive lib name 0 w = Some (Finished, w)"
| "runClient_receive lib name (Suc k) w =
     (case receive lib w of
        None \<Rightarrow> None
      | Some ((message, Some err), w1) \<Rightarrow>
          Some (Fatal (''Error receiving message: '' @ Error err @ ''\<newline>''), w1)
      | Some ((message, None), w1) \<Rightarrow>
          runClient_receive lib name k
            (printf (''Client '' @ name @ '' received: '' @ message @ ''\<newline>'') w1))"

definition runClient ::
  "'s mangos \<Rightarrow> string \<Rightarrow> string \<Rightarrow> string list \<Rightarrow> (outcome \<times> event list) option" where
  "runClient lib name url topics =
     (case newSubscriberSocket lib url of
        Inl err \<Rightarrow> Some (Fatal (''Cannot dial into '' @ url @ '': '' @ Error err @ ''\<newline>''), [])
      | Inr socket \<Rightarrow>
          (case runClient_subscribe lib topics (socket, []) of
             (Fatal line, w1) \<Rightarrow> Some (Fatal line, snd w1)
           | (Finished, w1) \<Rightarrow>
               (case runClient_receive lib name (5 * length topics) w1 of
                  None \<Rightarrow> None
                | Some (out, w2) \<Rightarrow> Some (out, snd w2))))"

subsection \<open>A simulated transport\<close>

text \<open>
  The mangos library is not part of the repository. To run the program on concrete inputs
  the development uses a simulated socket that does what the source says of the library:
  a pub socket "just sends out its messages to all receivers" (line 60); the
  subscription option "makes the socket ignore any message that does not start with the
  desired topic(s)" (lines 167-169), where the topic is simply prepended to the message
  and the pipe character is there "only for better readability" (lines 158-161), so the
  socket compares the first bytes of the message and knows no separator; the receive
  deadline "avoids that clients wait forever when they receive no messages" (line 152).
  Time itself is not modelled: the \<open>inbox\<close> holds the messages that reach the socket,
  in order, and a receive on a socket with a deadline that finds no matching message left
  ends with the time-out error, where a socket without a deadline would wait forever.
\<close>

record sim =
  subs :: "string list"
  deadline :: "duration option"
  inbox :: "string list"
  outbox :: "string list"
  transports :: "transport list"
  address :: "string option"

definition ErrRecvTimeout :: error where
  "ErrRecvTimeout = GoError ''receive time out''"

definition ErrBadValue :: error where
  "ErrBadValue = GoError ''invalid option value''"

definition sim_new :: "string list \<Rightarrow> sim" where
  "sim_new msgs =
     \<lparr>subs = [], deadline = None, inbox = msgs, outbox = [], transports = [], address = None\<rparr>"

definition sim_matches :: "string list \<Rightarrow> string \<Rightarrow> bool" where
  "sim_matches topics message = list_ex (\<lambda>topic. prefix topic message) topics"

fun sim_SetOption :: "opt_name \<Rightarrow> opt_value \<Rightarrow> sim \<Rightarrow> error option \<times> sim" where
  "sim_SetOption OptionSubscribe (BytesVal topic) s = (None, s\<lparr>subs := subs s @ [topic]\<rparr>)"
| "sim_SetOption OptionRecvDeadline (DurationVal d) s = (None, s\<lparr>deadline := Some d\<rparr>)"
| "sim_SetOption name val s = (Some ErrBadValue, s)"

definition sim_Send :: "string \<Rightarrow> sim \<Rightarrow> error option \<times> sim" where
  "sim_Send bytes s = (None, s\<lparr>outbox := outbox s @ [bytes]\<rparr>)"

definition sim_Recv :: "sim \<Rightarrow> ((string \<times> error option) \<times> sim) option" where
  "sim_Recv s =
     (case dropWhile (\<lambda>message. \<not> sim_matches (subs s) message) (inbox s) of
        message # rest \<Rightarrow> Some ((message, None), s\<lparr>inbox := rest\<rparr>)
      | [] \<Rightarrow>
          (case deadline s of
             None \<Rightarrow> None
           | Some d \<Rightarrow> Some (([], Some ErrRecvTimeout), s\<lparr>inbox := []\<rparr>)))"

text \<open>The library with simulated sockets; \<open>msgs\<close> are the messages that reach a sub socket.\<close>

definition simlib :: "string list \<Rightarrow> sim mangos" where
  "simlib msgs =
     \<lparr>pub_NewSocket = Inr (sim_new []),
      sub_NewSocket = Inr (sim_new msgs),
      AddTransport = (\<lambda>t s. s\<lparr>transports := transports s @ [t]\<rparr>),
      Listen = (\<lambda>url s. (None, s\<lparr>address := Some url\<rparr>)),
      Dial = (\<lambda>url s. (None, s\<lparr>address := Some url\<rparr>)),
      SetOption = sim_SetOption,
      Send = sim_Send,
      Recv = sim_Recv\<rparr>"

text \<open>
  Variants of the simulated library for runs with failures: a pub socket whose connection
  closes after \<open>k\<close> messages, a sub socket that refuses the subscription to some topics,
  and a sub socket that gives up at once where the simulated one would wait.
\<close>

definition ErrClosed :: error where
  "ErrClosed = GoError ''connection closed''"

definition sim_Send_limited :: "nat \<Rightarrow> string \<Rightarrow> sim \<Rightarrow> error option \<times> sim" where
  "sim_Send_limited k bytes s =
     (if length (outbox s) < k then sim_Send bytes s else (Some ErrClosed, s))"

definition closinglib :: "nat \<Rightarrow> sim mangos" where
  "closinglib k = (simlib [])\<lparr>Send := sim_Send_limited k\<rparr>"

definition sim_SetOption_strict ::
  "string list \<Rightarrow> opt_name \<Rightarrow> opt_value \<Rightarrow> sim \<Rightarrow> error option \<times> sim" where
  "sim_SetOption_strict bad name val s =
     (if name = OptionSubscribe \<and> val \<in> set (map BytesVal bad) then (Some ErrBadValue, s)
      else sim_SetOption name val s)"

definition strictlib :: "string list \<Rightarrow> string list \<Rightarrow> sim mangos" where
  "strictlib bad msgs = (simlib msgs)\<lparr>SetOption := sim_SetOption_strict bad\<rparr>"

definition sim_Recv_nowait :: "sim \<Rightarrow> ((string \<times> error option) \<times> sim) option" where
  "sim_Recv_nowait s =
     (case sim_Recv s of
        None \<Rightarrow> Some (([], Some ErrRecvTimeout), s)
      | Some r \<Rightarrow> Some r)"

definition nowaitlib :: "string list \<Rightarrow> sim mangos" where
  "nowaitlib msgs = (simlib msgs)\<lparr>Recv := sim_Recv_nowait\<rparr>"

subsection \<open>Reading a trace\<close>

text \<open>
  The lines printed, the messages received without error, the messages sent without
  error, and the subscriptions that succeeded, each in order; the number of times the
  receive deadline was set.
\<close>

fun printed :: "event list \<Rightarrow> string list" where
  "printed [] = []"
| "printed (Printf line # tr) = line # printed tr"
| "printed (ev # tr) = printed tr"

fun received :: "event list \<Rightarrow> string list" where
  "received [] = []"
| "received (RecvCall message None # tr) = message # received tr"
| "received (ev # tr) = received tr"

fun sent :: "event list \<Rightarrow> string list" where
  "sent [] = []"
| "sent (SendCall bytes None # tr) = bytes # sent tr"
| "sent (ev # tr) = sent tr"

fun subscriptions :: "event list \<Rightarrow> string list" where
  "subscriptions [] = []"
| "subscriptions (SetOptionCall OptionSubscribe (BytesVal topic) None # tr) = topic # subscriptions tr"
| "subscriptions (ev # tr) = subscriptions tr"

fun deadline_sets :: "event list \<Rightarrow> nat" where
  "deadline_sets [] = 0"
| "deadline_sets (SetOptionCall OptionRecvDeadline val err # tr) = Suc (deadline_sets tr)"
| "deadline_sets (ev # tr) = deadline_sets tr"

fun is_recv :: "event \<Rightarrow> bool" where
  "is_recv (RecvCall message err) = True"
| "is_recv ev = False"

fun failed_send :: "event \<Rightarrow> bool" where
  "failed_send (SendCall bytes (Some err)) = True"
| "failed_send ev = False"

text \<open>
  A publishing run was aborted by a failed send: the failed send of some topic's message
  is the last event, no send before it failed, and the run is fatal with the message of
  line 191.
\<close>

definition aborted_by :: "event list \<Rightarrow> outcome \<Rightarrow> bool" where
  "aborted_by tr out =
     (\<exists>pre topic err.
        tr = pre @ [SendCall (topic @ ''|'' @ ''Message for '' @ topic) (Some err)]
        \<and> \<not> list_ex failed_send pre
        \<and> out = Fatal (''Cannot publish message for topic '' @ topic @ '': '' @ Error err @ ''\<newline>''))"

text \<open>
  A subscriber of \<open>topics\<close> is delivered \<open>message\<close>: when that message is the one that
  reaches its socket, \<open>runClient\<close> receives it.
\<close>

definition delivered :: "string \<Rightarrow> string \<Rightarrow> string list \<Rightarrow> string \<Rightarrow> bool" where
  "delivered name url topics message =
     (case runClient (simlib [message]) name url topics of
        None \<Rightarrow> False
      | Some (out, tr) \<Rightarrow> message \<in> set (received tr))"

subsection \<open>The codec of the specification\<close>

text \<open>
  The source has no decoder. These two definitions follow the words of the specification
  (section 4.1: decode "splits at the first separator occurrence" and fails "if no
  separator is present"; section 3: the topic is "the bytes preceding the first separator
  occurrence"), to state what the specification asks of the bytes the program sends.
\<close>

definition spec_decode :: "string \<Rightarrow> (string \<times> string) option" where
  "spec_decode bytes =
     (if CHR ''|'' \<in> set bytes
      then Some (takeWhile (\<lambda>c. c \<noteq> CHR ''|'') bytes, tl (dropWhile (\<lambda>c. c \<noteq> CHR ''|'') bytes))
      else None)"

definition spec_topic :: "string \<Rightarrow> string" where
  "spec_topic bytes = takeWhile (\<lambda>c. c \<noteq> CHR ''|'') bytes"

section \<open>Lemmas\<close>

subsection \<open>Traces\<close>

lemma printed_append: "printed (xs @ ys) = printed xs @ printed ys"
  by (induction xs rule: printed.induct) simp_all

lemma received_append: "received (xs @ ys) = received xs @ received ys"
  by (induction xs rule: received.induct) simp_all


lemma deadline_sets_append: "deadline_sets (xs @ ys) = deadline_sets xs + deadline_sets ys"
  by (induction xs rule: deadline_sets.induct) simp_all

lemma subscriptions_append: "subscriptions (xs @ ys) = subscriptions xs @ subscriptions ys"
  by (induction xs rule: subscriptions.induct) simp_all

lemma split_after_prefix:
  "xs @ ys = pre @ r # post \<Longrightarrow> r \<notin> set xs \<Longrightarrow> \<exists>us. pre = xs @ us \<and> ys = us @ r # post"
proof (induction xs arbitrary: pre)
  case Nil
  then show ?case by simp
next
  case (Cons x xs)
  then show ?case by (cases pre) auto
qed

lemma list_ex_is_recv_filter: "\<not> list_ex is_recv xs \<Longrightarrow> filter is_recv xs = []"
  by (simp add: list_ex_iff filter_empty_conv)

subsection \<open>The helpers\<close>

lemma subscribe_fail:
  "SetOption lib OptionSubscribe (BytesVal topic) s = (Some err, s1) \<Longrightarrow>
   subscribe lib topic (s, tr) =
     (Some err, (s1, tr @ [SetOptionCall OptionSubscribe (BytesVal topic) (Some err)]))"
  by (simp add: subscribe_def callSetOption_def)

lemma publish_eq:
  "publish lib topic message (s, tr) =
     (fst (Send lib (topic @ ''|'' @ message) s),
      (snd (Send lib (topic @ ''|'' @ message) s),
       tr @ [SendCall (topic @ ''|'' @ message) (fst (Send lib (topic @ ''|'' @ message) s))]))"
  by (simp add: publish_def callSend_def split: prod.splits)

lemma spec_decode_wire:
  "CHR ''|'' \<notin> set T \<Longrightarrow> spec_decode (T @ ''|'' @ P) = Some (T, P)"
  by (induction T) (auto simp: spec_decode_def)

lemma subscribe_cases:
  obtains (rejected) err s1 where
      "SetOption lib OptionSubscribe (BytesVal topic) s = (Some err, s1)"
      "subscribe lib topic (s, tr) =
         (Some err, (s1, tr @ [SetOptionCall OptionSubscribe (BytesVal topic) (Some err)]))"
  | (accepted) s1 e s2 where
      "SetOption lib OptionSubscribe (BytesVal topic) s = (None, s1)"
      "SetOption lib OptionRecvDeadline (DurationVal (10 * Second)) s1 = (e, s2)"
      "subscribe lib topic (s, tr) =
         (e, (s2, tr @ [SetOptionCall OptionSubscribe (BytesVal topic) None,
                        SetOptionCall OptionRecvDeadline (DurationVal (10 * Second)) e]))"
proof -
  obtain e1 s1 where a: "SetOption lib OptionSubscribe (BytesVal topic) s = (e1, s1)"
    by (cases "SetOption lib OptionSubscribe (BytesVal topic) s")
  obtain e2 s2 where b: "SetOption lib OptionRecvDeadline (DurationVal (10 * Second)) s1 = (e2, s2)"
    by (cases "SetOption lib OptionRecvDeadline (DurationVal (10 * Second)) s1")
  show thesis
  proof (cases e1)
    case None
    with a b show thesis
      by (intro accepted [of s1 e2 s2]) (simp_all add: subscribe_def callSetOption_def)
  next
    case (Some err)
    with a show thesis
      by (intro rejected [of err s1]) (simp_all add: subscribe_def callSetOption_def)
  qed
qed

subsection \<open>The publisher\<close>





text \<open>A run either finishes with no failed send, or was aborted by its first failed send.\<close>

lemma runServer_topics_abort:
  "runServer_topics lib topics (s, tr) = (out, (s', tr')) \<Longrightarrow> \<not> list_ex failed_send tr \<Longrightarrow>
   (out = Finished \<and> \<not> list_ex failed_send tr') \<or> aborted_by tr' out"
proof (induction topics arbitrary: s tr)
  case Nil
  then show ?case by simp
next
  case (Cons topic rest)
  let ?w = "topic @ ''|'' @ ''Message for '' @ topic"
  let ?pre = "tr @ [Sleep Second, Printf (''Publishing a message for topic '' @ topic @ ''\<newline>'')]"
  obtain e s1 where snd: "Send lib ?w s = (e, s1)"
    by (cases "Send lib ?w s")
  show ?case
  proof (cases e)
    case None
    with snd Cons.prems(1) have
      "runServer_topics lib rest (s1, ?pre @ [SendCall ?w None]) = (out, (s', tr'))"
      by (simp add: publish_def callSend_def printf_def sleep_def)
    moreover from Cons.prems(2) have "\<not> list_ex failed_send (?pre @ [SendCall ?w None])"
      by (simp add: list_ex_iff)
    ultimately show ?thesis by (rule Cons.IH)
  next
    case (Some err)
    with snd Cons.prems(1) have
      "tr' = ?pre @ [SendCall ?w (Some err)]"
      "out = Fatal (''Cannot publish message for topic '' @ topic @ '': '' @ Error err @ ''\<newline>'')"
      by (simp_all add: publish_def callSend_def printf_def sleep_def)
    moreover from Cons.prems(2) have "\<not> list_ex failed_send ?pre"
      by (simp add: list_ex_iff)
    ultimately have "aborted_by tr' out"
      unfolding aborted_by_def by blast
    then show ?thesis ..
  qed
qed

lemma runServer_rounds_abort:
  "runServer_rounds lib n topics (s, tr) = (out, (s', tr')) \<Longrightarrow> \<not> list_ex failed_send tr \<Longrightarrow>
   (out = Finished \<and> \<not> list_ex failed_send tr') \<or> aborted_by tr' out"
proof (induction n arbitrary: s tr)
  case 0
  then show ?case by simp
next
  case (Suc k)
  obtain out1 s1 tr1 where t: "runServer_topics lib topics (s, tr) = (out1, (s1, tr1))"
    by (metis surj_pair)
  from runServer_topics_abort [OF t Suc.prems(2)]
  show ?case
  proof
    assume a: "out1 = Finished \<and> \<not> list_ex failed_send tr1"
    with t Suc.prems(1) have "runServer_rounds lib k topics (s1, tr1) = (out, (s', tr'))"
      by simp
    from Suc.IH [OF this] a show ?thesis by blast
  next
    assume a: "aborted_by tr1 out1"
    then obtain line where "out1 = Fatal line"
      unfolding aborted_by_def by blast
    with t Suc.prems(1) have "out = out1" "tr' = tr1"
      by simp_all
    with a show ?thesis by simp
  qed
qed

lemma runServer_abort:
  assumes "runServer lib url topics = (out, tr)"
  shows "(out = Finished \<and> \<not> list_ex failed_send tr) \<or> aborted_by tr out
     \<or> (tr = [] \<and> (\<exists>err. out = Fatal (''Cannot listen on '' @ url @ '': '' @ Error err @ ''\<newline>'')))"
proof (cases "newPublisherSocket lib url")
  case (Inl err)
  with assms show ?thesis by (auto simp: runServer_def)
next
  case (Inr socket)
  obtain out1 s1 tr1 where r: "runServer_rounds lib 5 topics (socket, []) = (out1, (s1, tr1))"
    by (metis surj_pair)
  with Inr assms have eq: "out = out1" "tr = tr1"
    by (simp_all add: runServer_def)
  have "\<not> list_ex failed_send []"
    by simp
  from runServer_rounds_abort [OF r this] eq show ?thesis
    by blast
qed

subsection \<open>The subscriber\<close>

text \<open>What the subscription loop adds to the trace.\<close>

lemma runClient_subscribe_trace:
  "runClient_subscribe lib topics (s, tr) = (out, (s', tr')) \<Longrightarrow>
   \<exists>new. tr' = tr @ new
     \<and> \<not> list_ex is_recv new
     \<and> deadline_sets new = length (subscriptions new)
     \<and> (out = Finished \<longrightarrow> subscriptions new = topics)
     \<and> (out = Finished \<and> topics \<noteq> [] \<longrightarrow>
          SetOptionCall OptionRecvDeadline (DurationVal (10 * Second)) None \<in> set new)"
proof (induction topics arbitrary: s tr)
  case Nil
  then show ?case by simp
next
  case (Cons topic rest)
  show ?case
  proof (cases rule: subscribe_cases [of lib topic s tr])
    case (rejected err s1)
    with Cons.prems have "tr' = tr @ [SetOptionCall OptionSubscribe (BytesVal topic) (Some err)]"
      "out \<noteq> Finished"
      by auto
    then show ?thesis by simp
  next
    case (accepted s1 e s2)
    let ?two = "[SetOptionCall OptionSubscribe (BytesVal topic) None,
                 SetOptionCall OptionRecvDeadline (DurationVal (10 * Second)) e]"
    show ?thesis
    proof (cases e)
      case (Some err)
      with accepted Cons.prems have "tr' = tr @ ?two" "out \<noteq> Finished"
        by auto
      then show ?thesis by simp
    next
      case None
      with accepted Cons.prems have
        "runClient_subscribe lib rest (s2, tr @ ?two) = (out, (s', tr'))"
        by simp
      from Cons.IH [OF this] obtain new where
        n: "tr' = (tr @ ?two) @ new" "\<not> list_ex is_recv new"
           "deadline_sets new = length (subscriptions new)"
           "out = Finished \<longrightarrow> subscriptions new = rest"
        by blast
      show ?thesis
        apply (rule exI [of _ "?two @ new"])
        using n None by (simp add: deadline_sets_append subscriptions_append)
    qed
  qed
qed

text \<open>What the receive loop adds: an error from \<open>Recv\<close> is the last event.\<close>

lemma runClient_receive_abort:
  "runClient_receive lib name n (s, tr) = Some (out, (s', tr')) \<Longrightarrow>
   \<exists>new. tr' = tr @ new
     \<and> (\<forall>pre m err post. new = pre @ RecvCall m (Some err) # post \<longrightarrow>
          post = [] \<and> out = Fatal (''Error receiving message: '' @ Error err @ ''\<newline>''))"
proof (induction n arbitrary: s tr)
  case 0
  then show ?case by simp
next
  case (Suc k)
  from Suc.prems obtain m e s1 where r: "Recv lib s = Some ((m, e), s1)"
    by (auto simp: receive_def callRecv_def split: option.splits)
  show ?case
  proof (cases e)
    case (Some err)
    with r Suc.prems have "tr' = tr @ [RecvCall m (Some err)]"
      "out = Fatal (''Error receiving message: '' @ Error err @ ''\<newline>'')"
      by (auto simp: receive_def callRecv_def)
    then show ?thesis
      by (auto simp: append_eq_Cons_conv Cons_eq_append_conv)
  next
    case None
    let ?two = "[RecvCall m None, Printf (''Client '' @ name @ '' received: '' @ m @ ''\<newline>'')]"
    from r None Suc.prems have
      "runClient_receive lib name k (s1, tr @ ?two) = Some (out, (s', tr'))"
      by (simp add: receive_def callRecv_def printf_def)
    from Suc.IH [OF this] obtain new where
      n: "tr' = (tr @ ?two) @ new"
         "\<forall>pre m err post. new = pre @ RecvCall m (Some err) # post \<longrightarrow>
            post = [] \<and> out = Fatal (''Error receiving message: '' @ Error err @ ''\<newline>'')"
      by blast
    have "\<forall>pre m' err post. ?two @ new = pre @ RecvCall m' (Some err) # post \<longrightarrow>
            post = [] \<and> out = Fatal (''Error receiving message: '' @ Error err @ ''\<newline>'')"
    proof (intro allI impI)
      fix pre m' err post
      assume a: "?two @ new = pre @ RecvCall m' (Some err) # post"
      then obtain q where "new = q @ RecvCall m' (Some err) # post"
        by (cases pre; cases "tl pre") (auto simp: Cons_eq_append_conv)
      with n(2) show "post = [] \<and> out = Fatal (''Error receiving message: '' @ Error err @ ''\<newline>'')"
        by blast
    qed
    with n(1) show ?thesis
      by (intro exI [of _ "?two @ new"]) simp
  qed
qed

lemma runClient_receive_returns:
  "(\<forall>s. Recv lib s \<noteq> None) \<Longrightarrow> runClient_receive lib name n w \<noteq> None"
proof (induction n arbitrary: w)
  case 0
  then show ?case by simp
next
  case (Suc k)
  then show ?case
    by (auto simp: receive_def callRecv_def split: option.splits)
qed

lemma runClient_subscribe_quiet:
  "runClient_subscribe lib topics (s, tr) = (out, (s', tr')) \<Longrightarrow>
   \<exists>new. tr' = tr @ new \<and> printed new = [] \<and> received new = []"
proof (induction topics arbitrary: s tr)
  case Nil
  then show ?case by simp
next
  case (Cons topic rest)
  show ?case
  proof (cases rule: subscribe_cases [of lib topic s tr])
    case (rejected err s1)
    with Cons.prems have "tr' = tr @ [SetOptionCall OptionSubscribe (BytesVal topic) (Some err)]"
      by auto
    then show ?thesis by simp
  next
    case (accepted s1 e s2)
    let ?two = "[SetOptionCall OptionSubscribe (BytesVal topic) None,
                 SetOptionCall OptionRecvDeadline (DurationVal (10 * Second)) e]"
    show ?thesis
    proof (cases e)
      case (Some err)
      with accepted Cons.prems have "tr' = tr @ ?two"
        by auto
      then show ?thesis by simp
    next
      case None
      with accepted Cons.prems have
        "runClient_subscribe lib rest (s2, tr @ ?two) = (out, (s', tr'))"
        by simp
      from Cons.IH [OF this] obtain new where
        n: "tr' = (tr @ ?two) @ new" "printed new = []" "received new = []"
        by blast
      show ?thesis
        apply (rule exI [of _ "?two @ new"])
        using n by (simp add: printed_append received_append)
    qed
  qed
qed

lemma runClient_cases:
  assumes "runClient lib name url topics = Some (out, tr)"
  obtains (dial) err where "newSubscriberSocket lib url = Inl err" "tr = []"
      "out = Fatal (''Cannot dial into '' @ url @ '': '' @ Error err @ ''\<newline>'')"
  | (subscription) socket line s1 where "newSubscriberSocket lib url = Inr socket"
      "runClient_subscribe lib topics (socket, []) = (Fatal line, (s1, tr))" "out = Fatal line"
  | (receiving) socket s1 tr1 s2 where "newSubscriberSocket lib url = Inr socket"
      "runClient_subscribe lib topics (socket, []) = (Finished, (s1, tr1))"
      "runClient_receive lib name (5 * length topics) (s1, tr1) = Some (out, (s2, tr))"
proof (cases "newSubscriberSocket lib url")
  case (Inl err)
  with assms dial show thesis
    by (auto simp: runClient_def)
next
  case (Inr socket)
  obtain out1 s1 tr1 where s: "runClient_subscribe lib topics (socket, []) = (out1, (s1, tr1))"
    by (metis surj_pair)
  show thesis
  proof (cases out1)
    case Finished
    with Inr s assms obtain s2 where
      "runClient_receive lib name (5 * length topics) (s1, tr1) = Some (out, (s2, tr))"
      by (auto simp: runClient_def split: option.splits)
    with Inr s Finished receiving show thesis
      by blast
  next
    case (Fatal line)
    with Inr s assms have "out = Fatal line" "tr = tr1"
      by (auto simp: runClient_def)
    with Inr s Fatal subscription show thesis
      by blast
  qed
qed

text \<open>What the receive loop prints and counts.\<close>

lemma runClient_receive_trace:
  "runClient_receive lib name n (s, tr) = Some (out, (s', tr')) \<Longrightarrow>
   \<exists>new. tr' = tr @ new
     \<and> printed new = map (\<lambda>m. ''Client '' @ name @ '' received: '' @ m @ ''\<newline>'') (received new)
     \<and> length (filter is_recv new) \<le> n
     \<and> length (received new) \<le> n
     \<and> (out = Finished \<longrightarrow> length (received new) = n)"
proof (induction n arbitrary: s tr)
  case 0
  then show ?case by simp
next
  case (Suc k)
  from Suc.prems obtain m e s1 where r: "Recv lib s = Some ((m, e), s1)"
    by (auto simp: receive_def callRecv_def split: option.splits)
  show ?case
  proof (cases e)
    case (Some err)
    with r Suc.prems have "tr' = tr @ [RecvCall m (Some err)]" "out \<noteq> Finished"
      by (auto simp: receive_def callRecv_def)
    then show ?thesis by simp
  next
    case None
    let ?line = "''Client '' @ name @ '' received: '' @ m @ ''\<newline>''"
    from r None Suc.prems have
      "runClient_receive lib name k (s1, tr @ [RecvCall m None, Printf ?line]) = Some (out, (s', tr'))"
      by (simp add: receive_def callRecv_def printf_def)
    from Suc.IH [OF this] obtain new where
      n: "tr' = (tr @ [RecvCall m None, Printf ?line]) @ new"
         "printed new = map (\<lambda>m. ''Client '' @ name @ '' received: '' @ m @ ''\<newline>'') (received new)"
         "length (filter is_recv new) \<le> k" "length (received new) \<le> k"
         "out = Finished \<longrightarrow> length (received new) = k"
      by blast
    show ?thesis
      apply (rule exI [of _ "[RecvCall m None, Printf ?line] @ new"])
      using n by (simp add: printed_append received_append)
  qed
qed

lemma runClient_recv_bound:
  assumes "runClient lib name url topics = Some (out, tr)"
  shows "length (filter is_recv tr) \<le> 5 * length topics"
using assms proof (cases rule: runClient_cases)
  case (dial err)
  then show ?thesis by simp
next
  case (subscription socket line s1)
  from runClient_subscribe_trace [OF subscription(2)] show ?thesis
    by (auto simp: list_ex_is_recv_filter)
next
  case (receiving socket s1 tr1 s2)
  from runClient_subscribe_trace [OF receiving(2)] have "filter is_recv tr1 = []"
    by (auto simp: list_ex_is_recv_filter)
  with runClient_receive_trace [OF receiving(3)] show ?thesis
    by auto
qed

lemma runClient_delivery:
  assumes "runClient lib name url topics = Some (out, tr)"
  shows "printed tr = map (\<lambda>m. ''Client '' @ name @ '' received: '' @ m @ ''\<newline>'') (received tr)
     \<and> length (received tr) \<le> 5 * length topics
     \<and> (out = Finished \<longrightarrow> length (received tr) = 5 * length topics)"
using assms proof (cases rule: runClient_cases)
  case (dial err)
  then show ?thesis by simp
next
  case (subscription socket line s1)
  from runClient_subscribe_quiet [OF subscription(2)] subscription(3) show ?thesis
    by auto
next
  case (receiving socket s1 tr1 s2)
  from runClient_subscribe_quiet [OF receiving(2)] have "printed tr1 = []" "received tr1 = []"
    by auto
  with runClient_receive_trace [OF receiving(3)] show ?thesis
    by (auto simp: printed_append received_append)
qed

lemma runClient_returns:
  assumes "\<forall>s. Recv lib s \<noteq> None"
  shows "\<exists>out tr. runClient lib name url topics = Some (out, tr)"
proof (cases "newSubscriberSocket lib url")
  case (Inl err)
  then show ?thesis by (simp add: runClient_def)
next
  case (Inr socket)
  obtain out1 w1 where s: "runClient_subscribe lib topics (socket, []) = (out1, w1)"
    by (cases "runClient_subscribe lib topics (socket, [])")
  show ?thesis
  proof (cases out1)
    case Finished
    from runClient_receive_returns [OF assms, of name "5 * length topics" w1]
    obtain out w2 where "runClient_receive lib name (5 * length topics) w1 = Some (out, w2)"
      by auto
    with Inr s Finished show ?thesis
      by (simp add: runClient_def)
  next
    case (Fatal line)
    with Inr s show ?thesis by (simp add: runClient_def)
  qed
qed

lemma runClient_no_topics:
  "\<exists>out tr. runClient lib name url [] = Some (out, tr) \<and> filter is_recv tr = []"
  by (cases "newSubscriberSocket lib url") (simp_all add: runClient_def)

lemma runClient_deadline_first:
  assumes "runClient lib name url topics = Some (out, tr)"
    and "tr = pre @ RecvCall m e # post"
  shows "SetOptionCall OptionRecvDeadline (DurationVal (10 * Second)) None \<in> set pre
     \<and> (\<forall>err. e = Some err \<longrightarrow>
          post = [] \<and> out = Fatal (''Error receiving message: '' @ Error err @ ''\<newline>''))"
using assms(1) proof (cases rule: runClient_cases)
  case (dial err)
  with assms(2) show ?thesis by simp
next
  case (subscription socket line s1)
  from runClient_subscribe_trace [OF subscription(2)] have "\<not> list_ex is_recv tr"
    by auto
  with assms(2) show ?thesis by (simp add: list_ex_iff)
next
  case (receiving socket s1 tr1 s2)
  from runClient_subscribe_trace [OF receiving(2)] have
    t1: "\<not> list_ex is_recv tr1"
      "topics \<noteq> [] \<longrightarrow> SetOptionCall OptionRecvDeadline (DurationVal (10 * Second)) None \<in> set tr1"
    by auto
  from runClient_receive_abort [OF receiving(3)] obtain new where
    n: "tr = tr1 @ new"
       "\<forall>pre m err post. new = pre @ RecvCall m (Some err) # post \<longrightarrow>
          post = [] \<and> out = Fatal (''Error receiving message: '' @ Error err @ ''\<newline>'')"
    by blast
  have ne: "topics \<noteq> []"
  proof
    assume "topics = []"
    with receiving(3) have "tr = tr1" by simp
    with t1(1) assms(2) show False by (simp add: list_ex_iff)
  qed
  from n(1) assms(2) have a: "tr1 @ new = pre @ RecvCall m e # post"
    by simp
  from t1(1) have b: "RecvCall m e \<notin> set tr1"
    by (auto simp: list_ex_iff)
  from split_after_prefix [OF a b] obtain us where
    us: "pre = tr1 @ us" "new = us @ RecvCall m e # post"
    by blast
  from us(1) t1(2) ne have
    "SetOptionCall OptionRecvDeadline (DurationVal (10 * Second)) None \<in> set pre"
    by simp
  moreover have "\<forall>err. e = Some err \<longrightarrow>
      post = [] \<and> out = Fatal (''Error receiving message: '' @ Error err @ ''\<newline>'')"
  proof (intro allI impI)
    fix err
    assume "e = Some err"
    with us(2) have "new = us @ RecvCall m (Some err) # post"
      by simp
    with n(2) show "post = [] \<and> out = Fatal (''Error receiving message: '' @ Error err @ ''\<newline>'')"
      by blast
  qed
  ultimately show ?thesis ..
qed

subsection \<open>The simulated transport\<close>

lemma sim_newSubscriberSocket:
  "newSubscriberSocket (simlib msgs) url =
     Inr ((sim_new msgs)\<lparr>transports := [IPC, TCP], address := Some url\<rparr>)"
  by (simp add: newSubscriberSocket_def simlib_def sim_new_def)

lemma sim_subscribe:
  "subscribe (simlib msgs) topic (s, tr) =
     (None, (s\<lparr>subs := subs s @ [topic], deadline := Some (10 * Second)\<rparr>,
             tr @ [SetOptionCall OptionSubscribe (BytesVal topic) None,
                   SetOptionCall OptionRecvDeadline (DurationVal (10 * Second)) None]))"
  by (simp add: subscribe_def callSetOption_def simlib_def)

lemma sim_subscribe_loop:
  "\<exists>s' tr'. runClient_subscribe (simlib msgs) topics (s, tr) = (Finished, (s', tr'))
     \<and> subs s' = subs s @ topics \<and> inbox s' = inbox s
     \<and> (topics \<noteq> [] \<longrightarrow> deadline s' = Some (10 * Second))"
proof (induction topics arbitrary: s tr)
  case Nil
  then show ?case by simp
next
  case (Cons topic rest)
  let ?s1 = "s\<lparr>subs := subs s @ [topic], deadline := Some (10 * Second)\<rparr>"
  let ?tr1 = "tr @ [SetOptionCall OptionSubscribe (BytesVal topic) None,
                   SetOptionCall OptionRecvDeadline (DurationVal (10 * Second)) None]"
  from Cons.IH [of ?s1 ?tr1] obtain s' tr' where
    r: "runClient_subscribe (simlib msgs) rest (?s1, ?tr1) = (Finished, (s', tr'))"
       "subs s' = subs ?s1 @ rest" "inbox s' = inbox ?s1"
       "rest \<noteq> [] \<longrightarrow> deadline s' = Some (10 * Second)"
    by blast
  have d: "deadline s' = Some (10 * Second)"
  proof (cases rest)
    case Nil
    with r(1) show ?thesis by auto
  next
    case (Cons a list)
    with r(4) show ?thesis by simp
  qed
  from r d show ?case
    by (simp add: sim_subscribe)
qed

lemma filter_dropWhile_not: "filter P (dropWhile (\<lambda>x. \<not> P x) xs) = filter P xs"
  by (induction xs) simp_all

lemma dropWhile_not_Nil: "dropWhile (\<lambda>x. \<not> P x) xs = [] \<Longrightarrow> filter P xs = []"
  using filter_dropWhile_not [of P xs] by simp

lemma dropWhile_not_Cons:
  assumes "dropWhile (\<lambda>x. \<not> P x) xs = m # rest"
  shows "filter P xs = m # filter P rest"
proof -
  from assms have "P m"
    using hd_dropWhile [of "\<lambda>x. \<not> P x" xs] by simp
  with assms filter_dropWhile_not [of P xs] show ?thesis by simp
qed

lemma sim_receive_loop:
  "deadline s \<noteq> None \<or> n = 0 \<Longrightarrow>
   \<exists>out s' new. runClient_receive (simlib msgs) name n (s, tr) = Some (out, (s', tr @ new))
     \<and> received new = take n (filter (sim_matches (subs s)) (inbox s))
     \<and> (length (filter (sim_matches (subs s)) (inbox s)) < n \<longrightarrow>
          out = Fatal (''Error receiving message: '' @ Error ErrRecvTimeout @ ''\<newline>'')
          \<and> (\<exists>pre. new = pre @ [RecvCall [] (Some ErrRecvTimeout)]))
     \<and> (n \<le> length (filter (sim_matches (subs s)) (inbox s)) \<longrightarrow> out = Finished)"
proof (induction n arbitrary: s tr)
  case 0
  then show ?case by simp
next
  case (Suc k)
  then obtain d where d: "deadline s = Some d"
    by auto
  show ?case
  proof (cases "dropWhile (\<lambda>message. \<not> sim_matches (subs s) message) (inbox s)")
    case Nil
    from dropWhile_not_Nil [OF Nil] have f: "filter (sim_matches (subs s)) (inbox s) = []" .
    from Nil d have "sim_Recv s = Some (([], Some ErrRecvTimeout), s\<lparr>inbox := []\<rparr>)"
      by (simp only: sim_Recv_def list.case option.case)
    then have
      "runClient_receive (simlib msgs) name (Suc k) (s, tr) =
         Some (Fatal (''Error receiving message: '' @ Error ErrRecvTimeout @ ''\<newline>''),
               (s\<lparr>inbox := []\<rparr>, tr @ [RecvCall [] (Some ErrRecvTimeout)]))"
      by (simp add: receive_def callRecv_def simlib_def)
    with f show ?thesis by simp
  next
    case (Cons m rest)
    from dropWhile_not_Cons [OF Cons] have
      f: "filter (sim_matches (subs s)) (inbox s) = m # filter (sim_matches (subs s)) rest" .
    let ?two = "[RecvCall m None, Printf (''Client '' @ name @ '' received: '' @ m @ ''\<newline>'')]"
    from Cons have "sim_Recv s = Some ((m, None), s\<lparr>inbox := rest\<rparr>)"
      by (simp only: sim_Recv_def list.case)
    then have step:
      "runClient_receive (simlib msgs) name (Suc k) (s, tr) =
         runClient_receive (simlib msgs) name k (s\<lparr>inbox := rest\<rparr>, tr @ ?two)"
      by (simp add: receive_def callRecv_def simlib_def printf_def)
    from d have "deadline (s\<lparr>inbox := rest\<rparr>) \<noteq> None \<or> k = 0"
      by simp
    from Suc.IH [OF this, of "tr @ ?two"] obtain out s' new where
      r: "runClient_receive (simlib msgs) name k (s\<lparr>inbox := rest\<rparr>, tr @ ?two) =
            Some (out, (s', (tr @ ?two) @ new))"
         "received new = take k (filter (sim_matches (subs s)) rest)"
         "length (filter (sim_matches (subs s)) rest) < k \<longrightarrow>
            out = Fatal (''Error receiving message: '' @ Error ErrRecvTimeout @ ''\<newline>'')
            \<and> (\<exists>pre. new = pre @ [RecvCall [] (Some ErrRecvTimeout)])"
         "k \<le> length (filter (sim_matches (subs s)) rest) \<longrightarrow> out = Finished"
      by auto
    show ?thesis
      apply (rule exI [of _ out], rule exI [of _ s'], rule exI [of _ "?two @ new"])
      using step r f by (auto simp: received_append)
  qed
qed

lemma sim_runClient:
  "\<exists>out tr. runClient (simlib msgs) name url topics = Some (out, tr)
     \<and> received tr = take (5 * length topics) (filter (sim_matches topics) msgs)
     \<and> (length (filter (sim_matches topics) msgs) < 5 * length topics \<longrightarrow>
          out = Fatal (''Error receiving message: '' @ Error ErrRecvTimeout @ ''\<newline>'')
          \<and> (\<exists>pre. tr = pre @ [RecvCall [] (Some ErrRecvTimeout)]))
     \<and> (5 * length topics \<le> length (filter (sim_matches topics) msgs) \<longrightarrow> out = Finished)"
proof -
  let ?s0 = "(sim_new msgs)\<lparr>transports := [IPC, TCP], address := Some url\<rparr>"
  from sim_subscribe_loop [of msgs topics ?s0 "[]"] obtain s1 tr1 where
    s: "runClient_subscribe (simlib msgs) topics (?s0, []) = (Finished, (s1, tr1))"
       "subs s1 = topics" "inbox s1 = msgs" "topics \<noteq> [] \<longrightarrow> deadline s1 = Some (10 * Second)"
    by (auto simp: sim_new_def)
  from runClient_subscribe_quiet [OF s(1)] have q: "received tr1 = []"
    by auto
  from s(4) have "deadline s1 \<noteq> None \<or> 5 * length topics = 0"
    by (cases topics) simp_all
  from sim_receive_loop [OF this, of msgs name tr1] s(2,3) obtain out s2 new where
    r: "runClient_receive (simlib msgs) name (5 * length topics) (s1, tr1) = Some (out, (s2, tr1 @ new))"
       "received new = take (5 * length topics) (filter (sim_matches topics) msgs)"
       "length (filter (sim_matches topics) msgs) < 5 * length topics \<longrightarrow>
          out = Fatal (''Error receiving message: '' @ Error ErrRecvTimeout @ ''\<newline>'')
          \<and> (\<exists>pre. new = pre @ [RecvCall [] (Some ErrRecvTimeout)])"
       "5 * length topics \<le> length (filter (sim_matches topics) msgs) \<longrightarrow> out = Finished"
    by auto
  have "runClient (simlib msgs) name url topics = Some (out, tr1 @ new)"
    by (simp add: runClient_def sim_newSubscriberSocket s(1) r(1))
  moreover have "received (tr1 @ new) = take (5 * length topics) (filter (sim_matches topics) msgs)"
    by (simp add: received_append q r(2))
  moreover from r(3) have "length (filter (sim_matches topics) msgs) < 5 * length topics \<longrightarrow>
          out = Fatal (''Error receiving message: '' @ Error ErrRecvTimeout @ ''\<newline>'')
          \<and> (\<exists>pre. tr1 @ new = pre @ [RecvCall [] (Some ErrRecvTimeout)])"
    by auto
  ultimately show ?thesis
    using r(4) by blast
qed

lemma sim_matches_iff: "sim_matches topics message \<longleftrightarrow> (\<exists>topic\<in>set topics. prefix topic message)"
  by (simp add: sim_matches_def list_ex_iff)

lemma spec_topic_prefix: "prefix (spec_topic message) message"
  unfolding spec_topic_def by (metis prefixI takeWhile_dropWhile_id)

lemma nowait_returns: "Recv (nowaitlib msgs) s \<noteq> None"
  by (simp add: nowaitlib_def simlib_def sim_Recv_nowait_def split: option.splits)

section \<open>The claims\<close>

subsection \<open>The subscription filter\<close>

text \<open>
  C1, as the program has it. The specification asks that a message is accepted exactly
  when its topic is a member of the subscription set, with no prefix semantics. The
  program leaves the filter to the socket, which compares the first bytes of the message
  with each subscribed topic, exactly and case-sensitively: a subscriber is delivered a
  message if and only if some subscribed topic is a prefix of the whole message. In
  particular every message whose topic is in the subscription set is accepted.
\<close>

theorem filter_accepts_by_prefix:
  "(delivered name url topics message \<longleftrightarrow> (\<exists>topic\<in>set topics. prefix topic message))
   \<and> (spec_topic message \<in> set topics \<longrightarrow> delivered name url topics message)"
proof -
  from sim_runClient [of "[message]" name url topics] obtain out tr where
    r: "runClient (simlib [message]) name url topics = Some (out, tr)"
       "received tr = take (5 * length topics) (filter (sim_matches topics) [message])"
    by blast
  have "delivered name url topics message \<longleftrightarrow> sim_matches topics message"
  proof (cases "sim_matches topics message")
    case True
    then have "topics \<noteq> []"
      by (auto simp: sim_matches_def)
    then have "0 < 5 * length topics"
      by simp
    with True r show ?thesis
      by (simp add: delivered_def take_Cons')
  next
    case False
    with r show ?thesis
      by (simp add: delivered_def)
  qed
  then have a: "delivered name url topics message \<longleftrightarrow> (\<exists>topic\<in>set topics. prefix topic message)"
    by (simp add: sim_matches_iff)
  with spec_topic_prefix [of message] show ?thesis
    by blast
qed

text \<open>
  A subscriber of Technology and Weather is delivered a Weather message and no Finance
  message; a subscriber of "weather" in lower case is not delivered the Weather message.
\<close>

theorem filter_accepts_by_prefix_witness:
  "spec_topic ''Weather|Message for Weather'' \<in> set [''Technology'', ''Weather'']
   \<and> delivered ''C2'' ''tcp://localhost:56565'' [''Technology'', ''Weather''] ''Weather|Message for Weather''
   \<and> prefix ''Weather'' ''Weather|Message for Weather''
   \<and> \<not> delivered ''C2'' ''tcp://localhost:56565'' [''Technology'', ''Weather''] ''Finance|Message for Finance''
   \<and> \<not> delivered ''C2'' ''tcp://localhost:56565'' [''weather''] ''Weather|Message for Weather''"
proof -
  have h: "spec_topic ''Weather|Message for Weather'' \<in> set [''Technology'', ''Weather'']"
    by (simp add: spec_topic_def)
  have n: "\<not> (\<exists>topic\<in>set [''Technology'', ''Weather'']. prefix topic ''Finance|Message for Finance'')"
    by simp
  have c: "\<not> (\<exists>topic\<in>set [''weather'']. prefix topic ''Weather|Message for Weather'')"
    by simp
  from h n c
    filter_accepts_by_prefix [of "''C2''" "''tcp://localhost:56565''" "[''Technology'', ''Weather'']"
      "''Weather|Message for Weather''"]
    filter_accepts_by_prefix [of "''C2''" "''tcp://localhost:56565''" "[''Technology'', ''Weather'']"
      "''Finance|Message for Finance''"]
    filter_accepts_by_prefix [of "''C2''" "''tcp://localhost:56565''" "[''weather'']"
      "''Weather|Message for Weather''"]
  show ?thesis by simp
qed

text \<open>
  The statement with exact matching fails: a subscriber of "Tech" is delivered a message
  whose topic is "Technology", which is not in its subscription set.
\<close>

theorem filter_exact_match_counterexample:
  "delivered ''C1'' ''tcp://localhost:56565'' [''Tech''] ''Technology|Message for Technology''
   \<and> spec_topic ''Technology|Message for Technology'' = ''Technology''
   \<and> ''Technology'' \<notin> set [''Tech'']"
  by code_simp

subsection \<open>The wire format\<close>

text \<open>
  C2, as the program has it. For every topic without the separator and every payload,
  \<open>publish\<close> sends topic, separator, payload, and these bytes split at the first separator
  into exactly the topic and the payload, as the decoder of the specification would split
  them. The program itself has no decoder: \<open>receive\<close> hands the bytes over whole.
\<close>

theorem wire_format_splits_back:
  assumes "CHR ''|'' \<notin> set T"
  shows "(\<exists>e s'. publish lib T P (s, tr) = (e, (s', tr @ [SendCall (T @ ''|'' @ P) e])))
     \<and> spec_decode (T @ ''|'' @ P) = Some (T, P)
     \<and> (Recv lib r = Some ((T @ ''|'' @ P, None), r') \<longrightarrow>
          receive lib (r, tr') = Some ((T @ ''|'' @ P, None), (r', tr' @ [RecvCall (T @ ''|'' @ P) None])))"
  using assms spec_decode_wire [of T P] by (simp add: publish_eq receive_def callRecv_def)

text \<open>
  The Weather message of the demo.
\<close>

theorem wire_format_splits_back_witness:
  "CHR ''|'' \<notin> set ''Weather''
   \<and> publish (simlib []) ''Weather'' ''Message for Weather'' (sim_new [], []) =
       (None, ((sim_new [])\<lparr>outbox := [''Weather|Message for Weather'']\<rparr>,
               [SendCall ''Weather|Message for Weather'' None]))
   \<and> spec_decode ''Weather|Message for Weather'' = Some (''Weather'', ''Message for Weather'')
   \<and> Recv (simlib []) ((sim_new [''Weather|Message for Weather''])\<lparr>subs := [''Weather'']\<rparr>) =
       Some ((''Weather|Message for Weather'', None), (sim_new [])\<lparr>subs := [''Weather'']\<rparr>)
   \<and> receive (simlib []) ((sim_new [''Weather|Message for Weather''])\<lparr>subs := [''Weather'']\<rparr>, []) =
       Some ((''Weather|Message for Weather'', None),
             ((sim_new [])\<lparr>subs := [''Weather'']\<rparr>, [RecvCall ''Weather|Message for Weather'' None]))"
proof -
  have h: "CHR ''|'' \<notin> set ''Weather''"
    by simp
  have rv: "Recv (simlib []) ((sim_new [''Weather|Message for Weather''])\<lparr>subs := [''Weather'']\<rparr>) =
       Some ((''Weather|Message for Weather'', None), (sim_new [])\<lparr>subs := [''Weather'']\<rparr>)"
    by (simp add: simlib_def sim_Recv_def sim_new_def sim_matches_def)
  from wire_format_splits_back [OF h, of "simlib []" "''Message for Weather''" "sim_new []" "[]"
      "(sim_new [''Weather|Message for Weather''])\<lparr>subs := [''Weather'']\<rparr>"
      "(sim_new [])\<lparr>subs := [''Weather'']\<rparr>" "[]"] h rv
  show ?thesis
    by (simp add: publish_def callSend_def simlib_def sim_Send_def sim_new_def)
qed

text \<open>
  What the subscriber gets for the message published with topic "A" and payload "x" is
  the string "A|x", neither the payload nor a pair: nothing decodes it.
\<close>

theorem receive_does_not_decode_counterexample:
  "sent (snd (snd (publish (simlib []) ''A'' ''x'' (sim_new [], [])))) = [''A|x'']
   \<and> map_option (fst \<circ> fst)
        (receive (simlib [''A|x'']) (snd (subscribe (simlib [''A|x'']) ''A'' (sim_new [''A|x''], []))))
       = Some ''A|x''
   \<and> ''A|x'' \<noteq> ''x''"
  by code_simp

subsection \<open>No topic validation\<close>

text \<open>
  C3, as the program has it. \<open>publish\<close> never looks at the topic: for every topic, with
  or without the separator, it sends topic, separator, payload, and its error is exactly
  the error of the socket's \<open>Send\<close>; it succeeds whenever \<open>Send\<close> does.
\<close>

theorem publish_never_rejects_topic:
  "publish lib topic message (s, tr) =
     (fst (Send lib (topic @ ''|'' @ message) s),
      (snd (Send lib (topic @ ''|'' @ message) s),
       tr @ [SendCall (topic @ ''|'' @ message) (fst (Send lib (topic @ ''|'' @ message) s))]))
   \<and> (fst (publish lib topic message (s, tr)) = None
        \<longleftrightarrow> fst (Send lib (topic @ ''|'' @ message) s) = None)"
  by (simp add: publish_eq)

text \<open>
  A send that succeeds and a send on a closed connection.
\<close>

theorem publish_never_rejects_topic_witness:
  "publish (simlib []) ''Weather'' ''Message for Weather'' (sim_new [], []) =
     (None, ((sim_new [])\<lparr>outbox := [''Weather|Message for Weather'']\<rparr>,
             [SendCall ''Weather|Message for Weather'' None]))
   \<and> fst (publish (closinglib 0) ''Weather'' ''Message for Weather'' (sim_new [], [])) = Some ErrClosed"
  using publish_never_rejects_topic [of "simlib []" "''Weather''" "''Message for Weather''" "sim_new []" "[]"]
    publish_never_rejects_topic [of "closinglib 0" "''Weather''" "''Message for Weather''" "sim_new []" "[]"]
  by (simp add: simlib_def sim_Send_def sim_new_def closinglib_def sim_Send_limited_def)

text \<open>
  Encoding the topic "a|b" does not fail: the bytes "a|b|payload" are sent and the error
  is nil.
\<close>

theorem publish_accepts_separator_counterexample:
  "publish (simlib []) ''a|b'' ''payload'' (sim_new [], []) =
     (None, ((sim_new [])\<lparr>outbox := [''a|b|payload'']\<rparr>, [SendCall ''a|b|payload'' None]))"
  by (simp add: publish_def callSend_def simlib_def sim_Send_def sim_new_def)

subsection \<open>Delivery without a second check\<close>

text \<open>
  C4, as the program has it. The subscriber neither decodes a received message nor checks
  it again: every message that \<open>Recv\<close> returns without error is printed as it is, in
  order, and every one counts as one of the \<open>5 * len(topics)\<close> iterations, so a run that
  returns normally has received exactly that many messages, whatever their topics.
\<close>

theorem subscriber_delivers_every_received:
  assumes "runClient lib name url topics = Some (out, tr)"
  shows "printed tr = map (\<lambda>message. ''Client '' @ name @ '' received: '' @ message @ ''\<newline>'') (received tr)
     \<and> length (received tr) \<le> 5 * length topics
     \<and> (out = Finished \<longrightarrow> length (received tr) = 5 * length topics)"
  using assms by (rule runClient_delivery)

text \<open>
  Two runs on the simulated socket: one that ends in a time-out after two messages, one
  that returns after five.
\<close>

theorem subscriber_delivers_every_received_witness:
  "runClient (simlib [''Sports|x'', ''Weather report|rain'', ''Weather|Message for Weather''])
      ''C3'' ''tcp://localhost:56565'' [''Weather'']
     = Some (Fatal ''Error receiving message: receive time out\<newline>'',
         [SetOptionCall OptionSubscribe (BytesVal ''Weather'') None,
          SetOptionCall OptionRecvDeadline (DurationVal 10000000000) None,
          RecvCall ''Weather report|rain'' None,
          Printf ''Client C3 received: Weather report|rain\<newline>'',
          RecvCall ''Weather|Message for Weather'' None,
          Printf ''Client C3 received: Weather|Message for Weather\<newline>'',
          RecvCall [] (Some (GoError ''receive time out''))])
   \<and> printed [SetOptionCall OptionSubscribe (BytesVal ''Weather'') None,
          SetOptionCall OptionRecvDeadline (DurationVal 10000000000) None,
          RecvCall ''Weather report|rain'' None,
          Printf ''Client C3 received: Weather report|rain\<newline>'',
          RecvCall ''Weather|Message for Weather'' None,
          Printf ''Client C3 received: Weather|Message for Weather\<newline>'',
          RecvCall [] (Some (GoError ''receive time out''))]
       = [''Client C3 received: Weather report|rain\<newline>'',
          ''Client C3 received: Weather|Message for Weather\<newline>'']
   \<and> runClient (simlib (replicate 5 ''Technology|Message for Technology''))
      ''C1'' ''tcp://localhost:56565'' [''Tech'']
     = Some (Finished,
         [SetOptionCall OptionSubscribe (BytesVal ''Tech'') None,
          SetOptionCall OptionRecvDeadline (DurationVal 10000000000) None,
          RecvCall ''Technology|Message for Technology'' None,
          Printf ''Client C1 received: Technology|Message for Technology\<newline>'',
          RecvCall ''Technology|Message for Technology'' None,
          Printf ''Client C1 received: Technology|Message for Technology\<newline>'',
          RecvCall ''Technology|Message for Technology'' None,
          Printf ''Client C1 received: Technology|Message for Technology\<newline>'',
          RecvCall ''Technology|Message for Technology'' None,
          Printf ''Client C1 received: Technology|Message for Technology\<newline>'',
          RecvCall ''Technology|Message for Technology'' None,
          Printf ''Client C1 received: Technology|Message for Technology\<newline>''])
   \<and> length (received
         [SetOptionCall OptionSubscribe (BytesVal ''Tech'') None,
          SetOptionCall OptionRecvDeadline (DurationVal 10000000000) None,
          RecvCall ''Technology|Message for Technology'' None,
          Printf ''Client C1 received: Technology|Message for Technology\<newline>'',
          RecvCall ''Technology|Message for Technology'' None,
          Printf ''Client C1 received: Technology|Message for Technology\<newline>'',
          RecvCall ''Technology|Message for Technology'' None,
          Printf ''Client C1 received: Technology|Message for Technology\<newline>'',
          RecvCall ''Technology|Message for Technology'' None,
          Printf ''Client C1 received: Technology|Message for Technology\<newline>'',
          RecvCall ''Technology|Message for Technology'' None,
          Printf ''Client C1 received: Technology|Message for Technology\<newline>'']) = 5 * length [''Tech'']"
proof -
  have a: "runClient (simlib [''Sports|x'', ''Weather report|rain'', ''Weather|Message for Weather''])
      ''C3'' ''tcp://localhost:56565'' [''Weather'']
     = Some (Fatal ''Error receiving message: receive time out\<newline>'',
         [SetOptionCall OptionSubscribe (BytesVal ''Weather'') None,
          SetOptionCall OptionRecvDeadline (DurationVal 10000000000) None,
          RecvCall ''Weather report|rain'' None,
          Printf ''Client C3 received: Weather report|rain\<newline>'',
          RecvCall ''Weather|Message for Weather'' None,
          Printf ''Client C3 received: Weather|Message for Weather\<newline>'',
          RecvCall [] (Some (GoError ''receive time out''))])"
    by code_simp
  have b: "runClient (simlib (replicate 5 ''Technology|Message for Technology''))
      ''C1'' ''tcp://localhost:56565'' [''Tech'']
     = Some (Finished,
         [SetOptionCall OptionSubscribe (BytesVal ''Tech'') None,
          SetOptionCall OptionRecvDeadline (DurationVal 10000000000) None,
          RecvCall ''Technology|Message for Technology'' None,
          Printf ''Client C1 received: Technology|Message for Technology\<newline>'',
          RecvCall ''Technology|Message for Technology'' None,
          Printf ''Client C1 received: Technology|Message for Technology\<newline>'',
          RecvCall ''Technology|Message for Technology'' None,
          Printf ''Client C1 received: Technology|Message for Technology\<newline>'',
          RecvCall ''Technology|Message for Technology'' None,
          Printf ''Client C1 received: Technology|Message for Technology\<newline>'',
          RecvCall ''Technology|Message for Technology'' None,
          Printf ''Client C1 received: Technology|Message for Technology\<newline>''])"
    by code_simp
  from subscriber_delivers_every_received [OF a] subscriber_delivers_every_received [OF b] a b show ?thesis
    by simp
qed

text \<open>
  A subscriber of "Tech" prints five messages of topic "Technology" and returns: the
  messages whose topic is not in the subscription set were delivered and counted.
\<close>

theorem subscriber_no_recheck_counterexample:
  "map_option fst (runClient (simlib (replicate 5 ''Technology|Message for Technology''))
      ''C1'' ''tcp://localhost:56565'' [''Tech'']) = Some Finished
   \<and> map_option (printed \<circ> snd) (runClient (simlib (replicate 5 ''Technology|Message for Technology''))
      ''C1'' ''tcp://localhost:56565'' [''Tech''])
     = Some (replicate 5 ''Client C1 received: Technology|Message for Technology\<newline>'')
   \<and> spec_topic ''Technology|Message for Technology'' = ''Technology''
   \<and> ''Technology'' \<notin> set [''Tech'']"
  by code_simp

subsection \<open>The publishing loop\<close>



subsection \<open>The bound of the receive loop\<close>

text \<open>
  C6. A subscriber run that returns has called \<open>Recv\<close> at most \<open>5 * len(topics)\<close> times;
  when no \<open>Recv\<close> waits forever the run does return; with an empty topic list it returns
  without a single \<open>Recv\<close>, whatever the socket does.
\<close>

theorem subscriber_receive_bound:
  "(runClient lib name url topics = Some (out, tr) \<longrightarrow>
      length (filter is_recv tr) \<le> 5 * length topics)
   \<and> ((\<forall>s. Recv lib s \<noteq> None) \<longrightarrow> (\<exists>out' tr'. runClient lib name url topics = Some (out', tr')))
   \<and> (\<exists>out0 tr0. runClient lib name url [] = Some (out0, tr0) \<and> filter is_recv tr0 = [])"
  using runClient_recv_bound [of lib name url topics out tr]
    runClient_returns [of lib name url topics] runClient_no_topics [of lib name url]
  by blast

text \<open>
  A run with one receive and a time-out, a socket that never waits, and a run without
  topics.
\<close>

theorem subscriber_receive_bound_witness:
  "runClient (simlib [''Weather|Message for Weather'', ''Finance|Message for Finance''])
      ''C3'' ''tcp://localhost:56565'' [''Finance'']
     = Some (Fatal ''Error receiving message: receive time out\<newline>'',
         [SetOptionCall OptionSubscribe (BytesVal ''Finance'') None,
          SetOptionCall OptionRecvDeadline (DurationVal 10000000000) None,
          RecvCall ''Finance|Message for Finance'' None,
          Printf ''Client C3 received: Finance|Message for Finance\<newline>'',
          RecvCall [] (Some (GoError ''receive time out''))])
   \<and> length (filter is_recv
         [SetOptionCall OptionSubscribe (BytesVal ''Finance'') None,
          SetOptionCall OptionRecvDeadline (DurationVal 10000000000) None,
          RecvCall ''Finance|Message for Finance'' None,
          Printf ''Client C3 received: Finance|Message for Finance\<newline>'',
          RecvCall [] (Some (GoError ''receive time out''))]) \<le> 5 * length [''Finance'']
   \<and> (\<forall>s. Recv (nowaitlib []) s \<noteq> None)
   \<and> (\<exists>out' tr'. runClient (nowaitlib []) ''C3'' ''tcp://localhost:56565'' [''Finance''] = Some (out', tr'))
   \<and> runClient (simlib [''Weather|Message for Weather'']) ''C0'' ''tcp://localhost:56565'' []
       = Some (Finished, [])"
proof -
  have a: "runClient (simlib [''Weather|Message for Weather'', ''Finance|Message for Finance''])
      ''C3'' ''tcp://localhost:56565'' [''Finance'']
     = Some (Fatal ''Error receiving message: receive time out\<newline>'',
         [SetOptionCall OptionSubscribe (BytesVal ''Finance'') None,
          SetOptionCall OptionRecvDeadline (DurationVal 10000000000) None,
          RecvCall ''Finance|Message for Finance'' None,
          Printf ''Client C3 received: Finance|Message for Finance\<newline>'',
          RecvCall [] (Some (GoError ''receive time out''))])"
    by code_simp
  have b: "\<forall>s. Recv (nowaitlib []) s \<noteq> None"
    by (simp add: nowait_returns)
  have c: "runClient (simlib [''Weather|Message for Weather'']) ''C0'' ''tcp://localhost:56565'' []
       = Some (Finished, [])"
    by code_simp
  from subscriber_receive_bound [of "simlib [''Weather|Message for Weather'', ''Finance|Message for Finance'']"
      "''C3''" "''tcp://localhost:56565''" "[''Finance'']"] a
    subscriber_receive_bound [of "nowaitlib []" "''C3''" "''tcp://localhost:56565''" "[''Finance'']"] b c
  show ?thesis
    by simp
qed

subsection \<open>The receive deadline\<close>

text \<open>
  C7. For every socket: each \<open>Recv\<close> of a subscriber run comes after a successful setting
  of the receive deadline to ten seconds, and a \<open>Recv\<close> that returns an error is the last
  thing the run does, which is then fatal with that error. On the simulated socket, where
  an elapsed deadline is the time-out error: the run of a subscriber never waits forever,
  and a subscriber with at least one topic that is sent fewer matching messages than it
  expects ends fatally with the time-out error.
\<close>

theorem subscriber_times_out:
  "(\<forall>out tr pre m e post.
        runClient lib name url topics = Some (out, tr) \<and> tr = pre @ RecvCall m e # post \<longrightarrow>
          SetOptionCall OptionRecvDeadline (DurationVal (10 * Second)) None \<in> set pre
          \<and> (\<forall>err. e = Some err \<longrightarrow>
                post = [] \<and> out = Fatal (''Error receiving message: '' @ Error err @ ''\<newline>'')))
   \<and> (\<exists>out tr. runClient (simlib msgs) name url topics = Some (out, tr)
         \<and> (topics \<noteq> [] \<and> length (filter (sim_matches topics) msgs) < 5 * length topics \<longrightarrow>
               out = Fatal (''Error receiving message: '' @ Error ErrRecvTimeout @ ''\<newline>'')
               \<and> (\<exists>pre. tr = pre @ [RecvCall [] (Some ErrRecvTimeout)])))"
proof (intro conjI allI impI)
  fix out tr pre m e post
  assume "runClient lib name url topics = Some (out, tr) \<and> tr = pre @ RecvCall m e # post"
  then have a: "runClient lib name url topics = Some (out, tr)" "tr = pre @ RecvCall m e # post"
    by simp_all
  from runClient_deadline_first [OF a]
  show "SetOptionCall OptionRecvDeadline (DurationVal (10 * Second)) None \<in> set pre"
    by simp
  fix err
  assume "e = Some err"
  with runClient_deadline_first [OF a]
  show "post = []" "out = Fatal (''Error receiving message: '' @ Error err @ ''\<newline>'')"
    by simp_all
next
  from sim_runClient [of msgs name url topics]
  show "\<exists>out tr. runClient (simlib msgs) name url topics = Some (out, tr)
         \<and> (topics \<noteq> [] \<and> length (filter (sim_matches topics) msgs) < 5 * length topics \<longrightarrow>
               out = Fatal (''Error receiving message: '' @ Error ErrRecvTimeout @ ''\<newline>'')
               \<and> (\<exists>pre. tr = pre @ [RecvCall [] (Some ErrRecvTimeout)]))"
    by blast
qed

text \<open>
  A subscriber of Finance that is sent Technology and Weather messages only.
\<close>

theorem subscriber_times_out_witness:
  "runClient (simlib [''Technology|Message for Technology'', ''Weather|Message for Weather''])
      ''C3'' ''tcp://localhost:56565'' [''Finance'']
     = Some (Fatal ''Error receiving message: receive time out\<newline>'',
         [SetOptionCall OptionSubscribe (BytesVal ''Finance'') None,
          SetOptionCall OptionRecvDeadline (DurationVal 10000000000) None]
         @ RecvCall [] (Some (GoError ''receive time out'')) # [])
   \<and> SetOptionCall OptionRecvDeadline (DurationVal (10 * Second)) None
        \<in> set [SetOptionCall OptionSubscribe (BytesVal ''Finance'') None,
                SetOptionCall OptionRecvDeadline (DurationVal 10000000000) None]
   \<and> [''Finance''] \<noteq> []
   \<and> length (filter (sim_matches [''Finance''])
         [''Technology|Message for Technology'', ''Weather|Message for Weather'']) < 5 * length [''Finance'']"
proof -
  have a: "runClient (simlib [''Technology|Message for Technology'', ''Weather|Message for Weather''])
      ''C3'' ''tcp://localhost:56565'' [''Finance'']
     = Some (Fatal ''Error receiving message: receive time out\<newline>'',
         [SetOptionCall OptionSubscribe (BytesVal ''Finance'') None,
          SetOptionCall OptionRecvDeadline (DurationVal 10000000000) None]
         @ RecvCall [] (Some (GoError ''receive time out'')) # [])"
    by code_simp
  have b: "length (filter (sim_matches [''Finance''])
         [''Technology|Message for Technology'', ''Weather|Message for Weather'']) < 5 * length [''Finance'']"
    by (simp add: sim_matches_def)
  from subscriber_times_out [of "simlib [''Technology|Message for Technology'', ''Weather|Message for Weather'']"
      "''C3''" "''tcp://localhost:56565''" "[''Finance'']"
      "[''Technology|Message for Technology'', ''Weather|Message for Weather'']"] a b
  show ?thesis
    by (simp add: Second_def)
qed

subsection \<open>No retry after a failed send\<close>

text \<open>
  C8. A send that fails during a publishing run is the last event of the run: nothing is
  sent, printed or waited for after it, no send before it failed, and the run is fatal
  with the error of that send for the topic whose message it was.
\<close>

theorem publisher_fails_fast:
  assumes "runServer lib url topics = (out, tr)"
    and "tr = pre @ SendCall bytes (Some err) # post"
  shows "post = [] \<and> \<not> list_ex failed_send pre
     \<and> (\<exists>topic. bytes = topic @ ''|'' @ ''Message for '' @ topic
          \<and> out = Fatal (''Cannot publish message for topic '' @ topic @ '': '' @ Error err @ ''\<newline>''))"
proof -
  from assms(2) have f: "list_ex failed_send tr"
    by (simp add: list_ex_iff)
  with runServer_abort [OF assms(1)] have "aborted_by tr out"
    by auto
  then obtain pre' topic err' where
    a: "tr = pre' @ [SendCall (topic @ ''|'' @ ''Message for '' @ topic) (Some err')]"
       "\<not> list_ex failed_send pre'"
       "out = Fatal (''Cannot publish message for topic '' @ topic @ '': '' @ Error err' @ ''\<newline>'')"
    unfolding aborted_by_def by blast
  from a(1) assms(2) have
    e: "pre' @ [SendCall (topic @ ''|'' @ ''Message for '' @ topic) (Some err')]
          = pre @ SendCall bytes (Some err) # post"
    by simp
  from a(2) have n: "SendCall bytes (Some err) \<notin> set pre'"
    by (auto simp: list_ex_iff)
  from split_after_prefix [OF e n] obtain us where
    us: "pre = pre' @ us"
        "[SendCall (topic @ ''|'' @ ''Message for '' @ topic) (Some err')] = us @ SendCall bytes (Some err) # post"
    by blast
  from us(2) have "us = []" "post = []" "bytes = topic @ ''|'' @ ''Message for '' @ topic" "err' = err"
    by (simp_all add: Cons_eq_append_conv)
  with us(1) a(2,3) show ?thesis
    by auto
qed

text \<open>
  A connection that closes after two messages: the third send fails and ends the run.
\<close>

theorem publisher_fails_fast_witness:
  "runServer (closinglib 2) ''tcp://localhost:56565'' [''A'', ''B''] =
     (Fatal ''Cannot publish message for topic A: connection closed\<newline>'',
      [Sleep 1000000000, Printf ''Publishing a message for topic A\<newline>'',
       SendCall ''A|Message for A'' None,
       Sleep 1000000000, Printf ''Publishing a message for topic B\<newline>'',
       SendCall ''B|Message for B'' None,
       Sleep 1000000000, Printf ''Publishing a message for topic A\<newline>'']
      @ SendCall ''A|Message for A'' (Some (GoError ''connection closed'')) # [])
   \<and> \<not> list_ex failed_send
      [Sleep 1000000000, Printf ''Publishing a message for topic A\<newline>'',
       SendCall ''A|Message for A'' None,
       Sleep 1000000000, Printf ''Publishing a message for topic B\<newline>'',
       SendCall ''B|Message for B'' None,
       Sleep 1000000000, Printf ''Publishing a message for topic A\<newline>'']"
proof -
  have a: "runServer (closinglib 2) ''tcp://localhost:56565'' [''A'', ''B''] =
     (Fatal ''Cannot publish message for topic A: connection closed\<newline>'',
      [Sleep 1000000000, Printf ''Publishing a message for topic A\<newline>'',
       SendCall ''A|Message for A'' None,
       Sleep 1000000000, Printf ''Publishing a message for topic B\<newline>'',
       SendCall ''B|Message for B'' None,
       Sleep 1000000000, Printf ''Publishing a message for topic A\<newline>'']
      @ SendCall ''A|Message for A'' (Some (GoError ''connection closed'')) # [])"
    by code_simp
  from publisher_fails_fast [OF a refl] a show ?thesis
    by simp
qed

subsection \<open>Raw delivery\<close>

text \<open>
  C9. When the socket returns a message without error, \<open>receive\<close> returns these very
  bytes, and the receive loop prints them as they are after the client's name: no topic is
  stripped and nothing is decoded.
\<close>

theorem receive_returns_raw_message:
  assumes "Recv lib s = Some ((message, None), s')"
  shows "receive lib (s, tr) = Some ((message, None), (s', tr @ [RecvCall message None]))
     \<and> runClient_receive lib name (Suc k) (s, tr) =
         runClient_receive lib name k
           (s', tr @ [RecvCall message None,
                      Printf (''Client '' @ name @ '' received: '' @ message @ ''\<newline>'')])"
  using assms by (simp add: receive_def callRecv_def printf_def)

text \<open>
  The Weather message arrives with its topic and separator.
\<close>

theorem receive_returns_raw_message_witness:
  "Recv (simlib []) ((sim_new [''Sports|x'', ''Weather|Message for Weather''])
        \<lparr>subs := [''Weather''], deadline := Some 10000000000\<rparr>)
     = Some ((''Weather|Message for Weather'', None),
             (sim_new [])\<lparr>subs := [''Weather''], deadline := Some 10000000000\<rparr>)
   \<and> receive (simlib []) ((sim_new [''Sports|x'', ''Weather|Message for Weather''])
        \<lparr>subs := [''Weather''], deadline := Some 10000000000\<rparr>, [])
     = Some ((''Weather|Message for Weather'', None),
             ((sim_new [])\<lparr>subs := [''Weather''], deadline := Some 10000000000\<rparr>,
              [RecvCall ''Weather|Message for Weather'' None]))
   \<and> map_option (printed \<circ> snd \<circ> snd)
        (runClient_receive (simlib []) ''C2'' (Suc 0)
           ((sim_new [''Sports|x'', ''Weather|Message for Weather''])
              \<lparr>subs := [''Weather''], deadline := Some 10000000000\<rparr>, []))
     = Some [''Client C2 received: Weather|Message for Weather\<newline>'']"
proof -
  have a: "Recv (simlib []) ((sim_new [''Sports|x'', ''Weather|Message for Weather''])
        \<lparr>subs := [''Weather''], deadline := Some 10000000000\<rparr>)
     = Some ((''Weather|Message for Weather'', None),
             (sim_new [])\<lparr>subs := [''Weather''], deadline := Some 10000000000\<rparr>)"
    by (simp add: simlib_def sim_Recv_def sim_new_def sim_matches_def)
  from receive_returns_raw_message [OF a, of "[]" "''C2''" 0] a show ?thesis
    by (simp add: printf_def)
qed

subsection \<open>The order of the two socket options\<close>

text \<open>
  C10. When setting the subscription option fails, \<open>subscribe\<close> returns that error
  and makes no further call on the socket, which is left as the failed call left it.
  When it succeeds, \<open>subscribe\<close> then sets the receive deadline to ten seconds and
  returns the error of that second call. So in the subscription loop the deadline has
  been set once for each subscription that succeeded.
\<close>

theorem subscribe_deadline_after_subscription:
  "(SetOption lib OptionSubscribe (BytesVal topic) s = (Some err, s1) \<longrightarrow>
      subscribe lib topic (s, tr) =
        (Some err, (s1, tr @ [SetOptionCall OptionSubscribe (BytesVal topic) (Some err)])))
   \<and> (SetOption lib OptionSubscribe (BytesVal topic) s = (None, s1)
        \<and> SetOption lib OptionRecvDeadline (DurationVal (10 * Second)) s1 = (e, s2) \<longrightarrow>
      subscribe lib topic (s, tr) =
        (e, (s2, tr @ [SetOptionCall OptionSubscribe (BytesVal topic) None,
                       SetOptionCall OptionRecvDeadline (DurationVal (10 * Second)) e])))
   \<and> (runClient_subscribe lib topics (s, []) = (out, (s', tr')) \<longrightarrow>
        deadline_sets tr' = length (subscriptions tr'))"
proof (intro conjI impI)
  assume "SetOption lib OptionSubscribe (BytesVal topic) s = (Some err, s1)"
  then show "subscribe lib topic (s, tr) =
        (Some err, (s1, tr @ [SetOptionCall OptionSubscribe (BytesVal topic) (Some err)]))"
    by (rule subscribe_fail)
next
  assume "SetOption lib OptionSubscribe (BytesVal topic) s = (None, s1)
        \<and> SetOption lib OptionRecvDeadline (DurationVal (10 * Second)) s1 = (e, s2)"
  then show "subscribe lib topic (s, tr) =
        (e, (s2, tr @ [SetOptionCall OptionSubscribe (BytesVal topic) None,
                       SetOptionCall OptionRecvDeadline (DurationVal (10 * Second)) e]))"
    by (simp add: subscribe_def callSetOption_def)
next
  assume "runClient_subscribe lib topics (s, []) = (out, (s', tr'))"
  from runClient_subscribe_trace [OF this]
  show "deadline_sets tr' = length (subscriptions tr')"
    by auto
qed

text \<open>
  A socket that refuses the topic "Finance": the refused subscription leaves the deadline
  unset, an accepted one sets it, and the loop stops at the refusal.
\<close>

theorem subscribe_deadline_after_subscription_witness:
  "SetOption (strictlib [''Finance''] []) OptionSubscribe (BytesVal ''Finance'') (sim_new [])
     = (Some ErrBadValue, sim_new [])
   \<and> subscribe (strictlib [''Finance''] []) ''Finance'' (sim_new [], [])
     = (Some ErrBadValue, (sim_new [], [SetOptionCall OptionSubscribe (BytesVal ''Finance'') (Some ErrBadValue)]))
   \<and> deadline (sim_new []) = None
   \<and> subscribe (strictlib [''Finance''] []) ''Weather'' (sim_new [], [])
     = (None, ((sim_new [])\<lparr>subs := [''Weather''], deadline := Some 10000000000\<rparr>,
               [SetOptionCall OptionSubscribe (BytesVal ''Weather'') None,
                SetOptionCall OptionRecvDeadline (DurationVal 10000000000) None]))
   \<and> runClient_subscribe (strictlib [''Finance''] []) [''Weather'', ''Finance'', ''Technology''] (sim_new [], [])
     = (Fatal ''Cannot subscribe to topic Finance: invalid option value\<newline>'',
        ((sim_new [])\<lparr>subs := [''Weather''], deadline := Some 10000000000\<rparr>,
         [SetOptionCall OptionSubscribe (BytesVal ''Weather'') None,
          SetOptionCall OptionRecvDeadline (DurationVal 10000000000) None,
          SetOptionCall OptionSubscribe (BytesVal ''Finance'') (Some ErrBadValue)]))
   \<and> deadline_sets [SetOptionCall OptionSubscribe (BytesVal ''Weather'') None,
          SetOptionCall OptionRecvDeadline (DurationVal 10000000000) None,
          SetOptionCall OptionSubscribe (BytesVal ''Finance'') (Some ErrBadValue)] = 1"
proof -
  have a: "SetOption (strictlib [''Finance''] []) OptionSubscribe (BytesVal ''Finance'') (sim_new [])
     = (Some ErrBadValue, sim_new [])"
    by (simp add: strictlib_def simlib_def sim_SetOption_strict_def)
  have b: "SetOption (strictlib [''Finance''] []) OptionSubscribe (BytesVal ''Weather'') (sim_new [])
     = (None, (sim_new [])\<lparr>subs := [''Weather'']\<rparr>)
     \<and> SetOption (strictlib [''Finance''] []) OptionRecvDeadline (DurationVal (10 * Second))
         ((sim_new [])\<lparr>subs := [''Weather'']\<rparr>)
     = (None, (sim_new [])\<lparr>subs := [''Weather''], deadline := Some 10000000000\<rparr>)"
    by (simp add: strictlib_def simlib_def sim_SetOption_strict_def sim_new_def Second_def)
  have c: "runClient_subscribe (strictlib [''Finance''] []) [''Weather'', ''Finance'', ''Technology''] (sim_new [], [])
     = (Fatal ''Cannot subscribe to topic Finance: invalid option value\<newline>'',
        ((sim_new [])\<lparr>subs := [''Weather''], deadline := Some 10000000000\<rparr>,
         [SetOptionCall OptionSubscribe (BytesVal ''Weather'') None,
          SetOptionCall OptionRecvDeadline (DurationVal 10000000000) None,
          SetOptionCall OptionSubscribe (BytesVal ''Finance'') (Some ErrBadValue)]))"
    by code_simp
  from subscribe_deadline_after_subscription [of "strictlib [''Finance''] []" "''Finance''" "sim_new []" ErrBadValue "sim_new []" "[]"
        None "sim_new []" "[''Weather'', ''Finance'', ''Technology'']"
        "Fatal ''Cannot subscribe to topic Finance: invalid option value\<newline>''"
        "(sim_new [])\<lparr>subs := [''Weather''], deadline := Some 10000000000\<rparr>"
        "[SetOptionCall OptionSubscribe (BytesVal ''Weather'') None,
          SetOptionCall OptionRecvDeadline (DurationVal 10000000000) None,
          SetOptionCall OptionSubscribe (BytesVal ''Finance'') (Some ErrBadValue)]"]
     subscribe_deadline_after_subscription [of "strictlib [''Finance''] []" "''Weather''" "sim_new []" ErrBadValue
        "(sim_new [])\<lparr>subs := [''Weather'']\<rparr>" "[]"
        None "(sim_new [])\<lparr>subs := [''Weather''], deadline := Some 10000000000\<rparr>"]
     a b c
  show ?thesis
    by (simp add: Second_def sim_new_def)
qed

end
